theory Spec2Isabelle
  imports Complex_Main
begin

section \<open>Python and pandas primitives used by the screener\<close>

text \<open>
  The screener (\<^verbatim>\<open>script.py\<close>, class \<^verbatim>\<open>IndianStockStrategy\<close>) computes on pandas columns of
  64-bit floats. Prices, amounts and ratios are modelled as exact reals: rounding, NaN
  values inside a fetched column and infinities are outside this model. A Python
  exception is a value \<open>Inl e\<close> of the result; the one place where pandas answers NaN
  instead of raising (the maximum of an empty column) is the value \<open>None\<close>.
\<close>

datatype py_error = ZeroDivisionError | IndexError

text \<open>
  \<^verbatim>\<open>a / b\<close>. With Python floats a zero divisor raises \<^verbatim>\<open>ZeroDivisionError\<close>; with
  numpy operands the quotient is \<^verbatim>\<open>inf\<close> or \<^verbatim>\<open>nan\<close> and the enclosing \<^verbatim>\<open>int(...)\<close> raises
  instead. In both cases no value is returned, which is the one error modelled here.
\<close>

definition py_truediv :: "real \<Rightarrow> real \<Rightarrow> py_error + real" where
  "py_truediv a b = (if b = 0 then Inl ZeroDivisionError else Inr (a / b))"

text \<open>\<^verbatim>\<open>int(x)\<close> truncates towards zero.\<close>

definition py_int :: "real \<Rightarrow> int" where
  "py_int x = (if 0 \<le> x then \<lfloor>x\<rfloor> else \<lceil>x\<rceil>)"

text \<open>\<^verbatim>\<open>xs.iloc[i]\<close>: a negative position counts from the end, a position out of range raises.\<close>

definition iloc :: "'a list \<Rightarrow> int \<Rightarrow> py_error + 'a" where
  "iloc xs i =
     (let pos = (if i < 0 then i + int (length xs) else i) in
      if pos < 0 \<or> int (length xs) \<le> pos then Inl IndexError else Inr (xs ! nat pos))"

text \<open>\<^verbatim>\<open>d.get(key, default)\<close> on a dict literal, kept as an association list.\<close>

definition dict_get :: "('k \<times> 'v) list \<Rightarrow> 'k \<Rightarrow> 'v \<Rightarrow> 'v" where
  "dict_get d key dflt = (case map_of d key of None \<Rightarrow> dflt | Some v \<Rightarrow> v)"

text \<open>\<^verbatim>\<open>s.endswith(suffix)\<close>.\<close>

definition endswith :: "string \<Rightarrow> string \<Rightarrow> bool" where
  "endswith s suffix =
     (length suffix \<le> length s \<and> drop (length s - length suffix) s = suffix)"

text \<open>
  \<^verbatim>\<open>column.max()\<close> and \<^verbatim>\<open>column.min()\<close>: the extreme value of a column, NaN (here \<open>None\<close>)
  for a column without rows.
\<close>

fun series_max :: "'a::linorder list \<Rightarrow> 'a option" where
  "series_max [] = None"
| "series_max (x # xs) = Some (fold max xs x)"

fun series_min :: "'a::linorder list \<Rightarrow> 'a option" where
  "series_min [] = None"
| "series_min (x # xs) = Some (fold min xs x)"

subsection \<open>Price bars and data frames\<close>

text \<open>
  One row of the frame that \<^verbatim>\<open>ticker.history\<close> returns. The index is a timestamp at
  midnight of the trading day; \<open>Date\<close> is its day number, counted from 1970-01-01 (a
  Thursday). The provider delivers the rows in chronological order.
\<close>

record bar =
  Date :: int
  Open :: real
  High :: real
  Low :: real
  Close :: real
  Volume :: real

text \<open>
  \<^verbatim>\<open>data.last('30D')\<close>: pandas subtracts the offset from the last index entry, finds by
  \<^verbatim>\<open>searchsorted(..., side="right")\<close> the number of leading rows that are not later than
  that instant, and returns the rows after them. An empty frame is returned as it is.
\<close>

definition last_offset :: "int \<Rightarrow> bar list \<Rightarrow> bar list" where
  "last_offset days data =
     (if data = [] then []
      else
        let start_date = Date (last data) - days;
            start = length (filter (\<lambda>b. Date b \<le> start_date) data)
        in drop start data)"

text \<open>
  \<^verbatim>\<open>data.resample('W')\<close>: weekly bins that end on Sunday, closed and labelled on the right,
  so a bin holds Monday to Sunday. Day 3 (1970-01-04) is a Sunday.
\<close>

definition week_of :: "int \<Rightarrow> int" where
  "week_of d = (d + 3) div 7"

definition week_label :: "int \<Rightarrow> int" where
  "week_label w = 7 * w + 3"

text \<open>
  The bins run over every week from the earliest to the latest index entry, also the
  weeks without any row.
\<close>

definition resample_W :: "bar list \<Rightarrow> (int \<times> bar list) list" where
  "resample_W data =
     (case (series_min (map Date data), series_max (map Date data)) of
        (Some first, Some final) \<Rightarrow>
          map (\<lambda>w. (w, filter (\<lambda>b. week_of (Date b) = w) data)) [week_of first..week_of final]
      | _ \<Rightarrow> [])"

text \<open>
  \<^verbatim>\<open>.agg({'Open': 'first', 'High': 'max', 'Low': 'min', 'Close': 'last', 'Volume': 'sum'})\<close>
  on one bin. A bin without rows aggregates to NaN in the four price columns; such a row
  is \<open>None\<close> here, and \<^verbatim>\<open>.dropna()\<close> removes exactly these.
\<close>

fun agg_week :: "int \<times> bar list \<Rightarrow> bar option" where
  "agg_week (w, []) = None"
| "agg_week (w, b # bs) =
     Some \<lparr>Date = week_label w,
           Open = Open b,
           High = fold max (map High bs) (High b),
           Low = fold min (map Low bs) (Low b),
           Close = Close (last (b # bs)),
           Volume = sum_list (map Volume (b # bs))\<rparr>"

fun dropna :: "'a option list \<Rightarrow> 'a list" where
  "dropna [] = []"
| "dropna (None # rows) = dropna rows"
| "dropna (Some r # rows) = r # dropna rows"

definition weekly_bars :: "bar list \<Rightarrow> bar list" where
  "weekly_bars data = dropna (map agg_week (resample_W data))"

section \<open>The strategy object\<close>

text \<open>
  The market-data service behind \<^verbatim>\<open>yf.Ticker\<close> is a parameter of the model.
  \<open>constituents\<close> is \<open>None\<close> when the ticker object has no such attribute, when it is
  \<^verbatim>\<open>None\<close>, or when reading it raises. \<open>ticker_info\<close> is \<open>None\<close> when the lookup raises,
  otherwise the value stored under \<^verbatim>\<open>'marketCap'\<close>, if any. \<open>history\<close> is \<open>None\<close> when
  the download raises.
\<close>

record yfinance =
  constituents :: "string \<Rightarrow> string list option"
  ticker_info :: "string \<Rightarrow> real option option"
  history :: "string \<Rightarrow> bar list option"

record strategy =
  portfolio_capital :: real
  max_risk_per_trade :: real
  max_position_size :: real
  max_risk_amount :: real
  max_position_amount :: real
  indian_stocks :: "string list"

subsection \<open>The static constituent lists\<close>

definition fallback_NSEI :: "string list" where
  "fallback_NSEI =
    [''RELIANCE.NS'', ''TCS.NS'', ''INFY.NS'', ''HDFCBANK.NS'', ''ICICIBANK.NS'',
     ''HINDUNILVR.NS'', ''SBIN.NS'', ''BHARTIARTL.NS'', ''ITC.NS'', ''KOTAKBANK.NS'', ''LT.NS'',
     ''ASIANPAINT.NS'', ''MARUTI.NS'', ''HCLTECH.NS'', ''WIPRO.NS'', ''TITAN.NS'',
     ''ULTRACEMCO.NS'', ''ONGC.NS'', ''TATASTEEL.NS'', ''ADANIPORTS.NS'', ''POWERGRID.NS'',
     ''NESTLEIND.NS'', ''BAJFINANCE.NS'', ''BAJAJFINSV.NS'', ''TECHM.NS'', ''SUNPHARMA.NS'',
     ''DRREDDY.NS'', ''CIPLA.NS'', ''DIVISLAB.NS'', ''COALINDIA.NS'', ''NTPC.NS'',
     ''JSWSTEEL.NS'', ''TATAMOTORS.NS'', ''M&M.NS'', ''GRASIM.NS'', ''BRITANNIA.NS'',
     ''SHREECEM.NS'', ''EICHERMOT.NS'', ''UPL.NS'', ''HINDALCO.NS'', ''BAJAJ-AUTO.NS'',
     ''APOLLOHOSP.NS'', ''HEROMOTOCO.NS'', ''BPCL.NS'', ''IOC.NS'', ''INDUSINDBK.NS'',
     ''AXISBANK.NS'', ''VEDL.NS'', ''ADANITRANS.NS'', ''TATACONSUM.NS'']"

definition fallback_BSESN :: "string list" where
  "fallback_BSESN =
    [''RELIANCE.NS'', ''TCS.NS'', ''INFY.NS'', ''HDFCBANK.NS'', ''ICICIBANK.NS'',
     ''HINDUNILVR.NS'', ''SBIN.NS'', ''BHARTIARTL.NS'', ''ITC.NS'', ''KOTAKBANK.NS'', ''LT.NS'',
     ''ASIANPAINT.NS'', ''MARUTI.NS'', ''HCLTECH.NS'', ''BAJFINANCE.NS'', ''TITAN.NS'',
     ''ULTRACEMCO.NS'', ''ONGC.NS'', ''TATASTEEL.NS'', ''POWERGRID.NS'', ''NESTLEIND.NS'',
     ''BAJAJFINSV.NS'', ''TECHM.NS'', ''SUNPHARMA.NS'', ''NTPC.NS'', ''JSWSTEEL.NS'',
     ''TATAMOTORS.NS'', ''M&M.NS'', ''AXISBANK.NS'', ''INDUSINDBK.NS'']"

definition fallback_CNX100 :: "string list" where
  "fallback_CNX100 =
    [''RELIANCE.NS'', ''TCS.NS'', ''INFY.NS'', ''HDFCBANK.NS'', ''ICICIBANK.NS'',
     ''HINDUNILVR.NS'', ''SBIN.NS'', ''BHARTIARTL.NS'', ''ITC.NS'', ''KOTAKBANK.NS'', ''LT.NS'',
     ''ASIANPAINT.NS'', ''MARUTI.NS'', ''HCLTECH.NS'', ''WIPRO.NS'', ''TITAN.NS'',
     ''ULTRACEMCO.NS'', ''ONGC.NS'', ''TATASTEEL.NS'', ''ADANIPORTS.NS'', ''POWERGRID.NS'',
     ''NESTLEIND.NS'', ''BAJFINANCE.NS'', ''BAJAJFINSV.NS'', ''TECHM.NS'', ''SUNPHARMA.NS'',
     ''DRREDDY.NS'', ''CIPLA.NS'', ''DIVISLAB.NS'', ''COALINDIA.NS'', ''NTPC.NS'',
     ''JSWSTEEL.NS'', ''TATAMOTORS.NS'', ''M&M.NS'', ''GRASIM.NS'', ''BRITANNIA.NS'',
     ''SHREECEM.NS'', ''EICHERMOT.NS'', ''UPL.NS'', ''HINDALCO.NS'', ''BAJAJ-AUTO.NS'',
     ''APOLLOHOSP.NS'', ''HEROMOTOCO.NS'', ''BPCL.NS'', ''IOC.NS'', ''INDUSINDBK.NS'',
     ''AXISBANK.NS'', ''VEDL.NS'', ''ADANITRANS.NS'', ''TATACONSUM.NS'', ''ADANIENT.NS'',
     ''SIEMENS.NS'', ''DLF.NS'', ''GODREJCP.NS'', ''DABUR.NS'', ''HAVELLS.NS'', ''TRENT.NS'',
     ''BEL.NS'', ''BANKBARODA.NS'', ''PNB.NS'', ''CANBK.NS'', ''UNIONBANK.NS'', ''INDHOTEL.NS'',
     ''CONCOR.NS'', ''BOSCHLTD.NS'', ''TATAPOWER.NS'', ''TORNTPHARM.NS'', ''COLPAL.NS'',
     ''MARICO.NS'', ''PIDILITIND.NS'', ''GLAND.NS'', ''BERGEPAINT.NS'', ''LUPIN.NS'',
     ''AMBUJACEM.NS'', ''ACC.NS'', ''ICICIPRULI.NS'', ''SBILIFE.NS'', ''HDFCLIFE.NS'',
     ''BAJAJHLDNG.NS'', ''MOTHERSON.NS'', ''VOLTAS.NS'', ''AUBANK.NS'', ''BANDHANBNK.NS'',
     ''IDFCFIRSTB.NS'', ''PEL.NS'', ''GODREJPROP.NS'', ''OBEROIRLTY.NS'', ''PRESTIGE.NS'',
     ''MCDOWELL-N.NS'', ''ABB.NS'', ''SBICARD.NS'', ''INDIGO.NS'', ''PETRONET.NS'', ''MRF.NS'',
     ''PAGEIND.NS'', ''ALKEM.NS'', ''BIOCON.NS'', ''DMART.NS'', ''NAUKRI.NS'', ''ZOMATO.NS'']"

definition fallback_CRSLDX :: "string list" where
  "fallback_CRSLDX =
    [''RELIANCE.NS'', ''TCS.NS'', ''INFY.NS'', ''HDFCBANK.NS'', ''ICICIBANK.NS'',
     ''HINDUNILVR.NS'', ''SBIN.NS'', ''BHARTIARTL.NS'', ''ITC.NS'', ''KOTAKBANK.NS'', ''LT.NS'',
     ''ASIANPAINT.NS'', ''MARUTI.NS'', ''HCLTECH.NS'', ''WIPRO.NS'', ''TITAN.NS'',
     ''ULTRACEMCO.NS'', ''ONGC.NS'', ''TATASTEEL.NS'', ''ADANIPORTS.NS'', ''POWERGRID.NS'',
     ''NESTLEIND.NS'', ''BAJFINANCE.NS'', ''BAJAJFINSV.NS'', ''TECHM.NS'', ''SUNPHARMA.NS'',
     ''DRREDDY.NS'', ''CIPLA.NS'', ''DIVISLAB.NS'', ''COALINDIA.NS'', ''NTPC.NS'',
     ''JSWSTEEL.NS'', ''TATAMOTORS.NS'', ''M&M.NS'', ''GRASIM.NS'', ''BRITANNIA.NS'',
     ''SHREECEM.NS'', ''EICHERMOT.NS'', ''UPL.NS'', ''HINDALCO.NS'', ''BAJAJ-AUTO.NS'',
     ''APOLLOHOSP.NS'', ''HEROMOTOCO.NS'', ''BPCL.NS'', ''IOC.NS'', ''INDUSINDBK.NS'',
     ''AXISBANK.NS'', ''VEDL.NS'', ''ADANITRANS.NS'', ''TATACONSUM.NS'', ''ADANIENT.NS'',
     ''SIEMENS.NS'', ''DLF.NS'', ''GODREJCP.NS'', ''DABUR.NS'', ''HAVELLS.NS'', ''TRENT.NS'',
     ''BEL.NS'', ''BANKBARODA.NS'', ''PNB.NS'', ''CANBK.NS'', ''UNIONBANK.NS'', ''INDHOTEL.NS'',
     ''CONCOR.NS'', ''BOSCHLTD.NS'', ''TATAPOWER.NS'', ''TORNTPHARM.NS'', ''COLPAL.NS'',
     ''MARICO.NS'', ''PIDILITIND.NS'', ''GLAND.NS'', ''BERGEPAINT.NS'', ''LUPIN.NS'',
     ''AMBUJACEM.NS'', ''ACC.NS'', ''ICICIPRULI.NS'', ''SBILIFE.NS'', ''HDFCLIFE.NS'',
     ''BAJAJHLDNG.NS'', ''MOTHERSON.NS'', ''VOLTAS.NS'', ''AUBANK.NS'', ''BANDHANBNK.NS'',
     ''IDFCFIRSTB.NS'', ''PEL.NS'', ''GODREJPROP.NS'', ''OBEROIRLTY.NS'', ''PRESTIGE.NS'',
     ''MCDOWELL-N.NS'', ''ABB.NS'', ''SBICARD.NS'', ''INDIGO.NS'', ''PETRONET.NS'', ''MRF.NS'',
     ''PAGEIND.NS'', ''ALKEM.NS'', ''BIOCON.NS'', ''DMART.NS'', ''NAUKRI.NS'', ''ZOMATO.NS'',
     ''PAYTM.NS'', ''POLICYBZR.NS'', ''ZEEL.NS'', ''DIXON.NS'', ''LTIM.NS'', ''PERSISTENT.NS'',
     ''COFORGE.NS'', ''MPHASIS.NS'', ''LTTS.NS'', ''HAPPSTMNDS.NS'', ''CROMPTON.NS'',
     ''WHIRLPOOL.NS'', ''CUMMINSIND.NS'', ''ESCORTS.NS'', ''ASHOKLEY.NS'', ''BALKRISIND.NS'',
     ''APOLLOTYRE.NS'', ''CEATLTD.NS'', ''EXIDEIND.NS'', ''AMARAJABAT.NS'', ''FORCEMOT.NS'',
     ''TVSMOTOR.NS'', ''BAJAJHIND.NS'', ''METROPOLIS.NS'', ''LALPATHLAB.NS'', ''AUROPHARMA.NS'',
     ''IPCALAB.NS'', ''LAURUSLABS.NS'', ''NATCOPHARM.NS'', ''PFIZER.NS'', ''ABBOTINDIA.NS'',
     ''GLAXO.NS'', ''SANOFI.NS'', ''CENTRALBK.NS'', ''INDIANB.NS'', ''MAHABANK.NS'',
     ''CHOLAFIN.NS'', ''LICHSGFIN.NS'', ''SHRIRAMFIN.NS'', ''IIFL.NS'', ''RECLTD.NS'',
     ''PFC.NS'', ''IRCTC.NS'', ''IEX.NS'', ''IRFC.NS'', ''RAILTEL.NS'', ''HAL.NS'', ''BDL.NS'',
     ''COCHINSHIP.NS'', ''MAZDA.NS'', ''GAIL.NS'', ''GMRINFRA.NS'', ''ADANIGREEN.NS'',
     ''ADANIPOWER.NS'', ''TATAELXSI.NS'', ''MFSL.NS'', ''GNFC.NS'', ''DEEPAKNTR.NS'',
     ''BALRAMCHIN.NS'', ''TATACHEM.NS'', ''PIIND.NS'', ''SRF.NS'', ''ATUL.NS'',
     ''CHAMBLFERT.NS'', ''COROMANDEL.NS'', ''MANAPPURAM.NS'', ''MUTHOOTFIN.NS'', ''SJVN.NS'',
     ''NHPC.NS'', ''ZENSARTECH.NS'', ''INFY.NS'', ''INTELLECT.NS'', ''SONATSOFTW.NS'',
     ''KPITTECH.NS'', ''CYIENT.NS'', ''RBLBANK.NS'', ''FEDERALBNK.NS'', ''IDBI.NS'', ''CESC.NS'',
     ''ADANIENSOL.NS'', ''JSL.NS'', ''SAIL.NS'', ''JINDALSTEL.NS'', ''NMDC.NS'',
     ''NATIONALUM.NS'', ''RATNAMANI.NS'', ''WELCORP.NS'', ''RELAXO.NS'', ''BATA.NS'', ''VBL.NS'',
     ''TATACOMM.NS'', ''BHARATFORG.NS'', ''TIMKEN.NS'', ''SCHNEIDER.NS'', ''CROMPTON.NS'',
     ''KEI.NS'', ''POLYCAB.NS'', ''APLAPOLLO.NS'', ''ASTRAL.NS'', ''SUPREMEIND.NS'',
     ''NILKAMAL.NS'', ''SYMPHONY.NS'', ''BLUESTARCO.NS'', ''VGUARD.NS'', ''FINEORG.NS'',
     ''EIDPARRY.NS'', ''RAJESHEXPO.NS'', ''TITAN.NS'', ''MANYAVAR.NS'', ''ABFRL.NS'',
     ''TRENT.NS'', ''SHOPERSTOP.NS'', ''JUBLFOOD.NS'', ''WESTLIFE.NS'', ''SAPPHIRE.NS'',
     ''GOCOLORS.NS'', ''VMART.NS'', ''BSOFT.NS'', ''IRCON.NS'', ''NBCC.NS'', ''REDINGTON.NS'',
     ''AMBER.NS'', ''ROUTE.NS'', ''GICRE.NS'', ''NIACL.NS'', ''STARHEALTH.NS'', ''MAHLIFE.NS'',
     ''ITI.NS'', ''MTNL.NS'', ''PVR.NS'', ''PVRINOX.NS'', ''BASF.NS'', ''HONAUT.NS'',
     ''3MINDIA.NS'', ''GILLETTE.NS'', ''BAYERCROP.NS'', ''GRINDWELL.NS'', ''CARBORUNIV.NS'',
     ''SKFINDIA.NS'']"

definition fallback_NIFTY_MIDCAP :: "string list" where
  "fallback_NIFTY_MIDCAP =
    [''GODREJCP.NS'', ''DABUR.NS'', ''HAVELLS.NS'', ''TRENT.NS'', ''BEL.NS'', ''BANKBARODA.NS'',
     ''PNB.NS'', ''CANBK.NS'', ''UNIONBANK.NS'', ''INDHOTEL.NS'', ''BOSCHLTD.NS'',
     ''TATAPOWER.NS'', ''TORNTPHARM.NS'', ''COLPAL.NS'', ''MARICO.NS'', ''PIDILITIND.NS'',
     ''GLAND.NS'', ''BERGEPAINT.NS'', ''LUPIN.NS'', ''AMBUJACEM.NS'', ''ACC.NS'',
     ''ICICIPRULI.NS'', ''SBILIFE.NS'', ''HDFCLIFE.NS'', ''MOTHERSON.NS'', ''VOLTAS.NS'',
     ''AUBANK.NS'', ''BANDHANBNK.NS'', ''IDFCFIRSTB.NS'', ''PEL.NS'', ''GODREJPROP.NS'',
     ''OBEROIRLTY.NS'', ''PRESTIGE.NS'', ''ABB.NS'', ''SBICARD.NS'', ''INDIGO.NS'',
     ''PETRONET.NS'', ''MRF.NS'', ''ALKEM.NS'', ''BIOCON.NS'', ''DMART.NS'', ''NAUKRI.NS'',
     ''DIXON.NS'', ''LTIM.NS'', ''PERSISTENT.NS'', ''COFORGE.NS'', ''MPHASIS.NS'', ''LTTS.NS'',
     ''CROMPTON.NS'', ''CUMMINSIND.NS'']"

definition fallback_lists :: "(string \<times> string list) list" where
  "fallback_lists =
     [(''^NSEI'', fallback_NSEI),
      (''^BSESN'', fallback_BSESN),
      (''^CNX100'', fallback_CNX100),
      (''^CRSLDX'', fallback_CRSLDX),
      (''NIFTY_MIDCAP'', fallback_NIFTY_MIDCAP)]"

definition get_fallback_stocks :: "string \<Rightarrow> string list" where
  "get_fallback_stocks index = dict_get fallback_lists index fallback_NSEI"

definition get_nifty_symbols :: "yfinance \<Rightarrow> string \<Rightarrow> string list" where
  "get_nifty_symbols yf index =
     (case constituents yf index of
        Some cs \<Rightarrow>
          if length cs > 0
          then map (\<lambda>symbol. if \<not> endswith symbol ''.NS'' then symbol @ ''.NS'' else symbol) cs
          else get_fallback_stocks index
      | None \<Rightarrow> get_fallback_stocks index)"

definition init_strategy :: "yfinance \<Rightarrow> real \<Rightarrow> string \<Rightarrow> strategy" where
  "init_strategy yf capital index =
     \<lparr>portfolio_capital = capital,
      max_risk_per_trade = 0.02,
      max_position_size = 0.10,
      max_risk_amount = capital * 0.02,
      max_position_amount = capital * 0.10,
      indian_stocks = get_nifty_symbols yf index\<rparr>"

subsection \<open>Market data\<close>

definition get_market_cap :: "yfinance \<Rightarrow> string \<Rightarrow> real" where
  "get_market_cap yf symbol =
     (case ticker_info yf symbol of
        None \<Rightarrow> 0
      | Some info \<Rightarrow>
          let market_cap_usd = (case info of None \<Rightarrow> 0 | Some v \<Rightarrow> v);
              market_cap_crores = (market_cap_usd * 83) / 10000000
          in market_cap_crores)"

definition get_stock_data :: "yfinance \<Rightarrow> string \<Rightarrow> bar list option" where
  "get_stock_data yf symbol = history yf symbol"

section \<open>The three criteria\<close>

text \<open>The result is \<open>None\<close> where pandas returns three NaN values (a frame without rows).\<close>

definition calculate_52_week_range :: "bar list \<Rightarrow> (real \<times> real \<times> real) option" where
  "calculate_52_week_range data =
     (case (series_max (map High data), series_min (map Low data)) of
        (Some week_52_high, Some week_52_low) \<Rightarrow>
          let midpoint = (week_52_high + week_52_low) / 2
          in Some (week_52_high, week_52_low, midpoint)
      | _ \<Rightarrow> None)"

definition check_first_half_criterion :: "real \<Rightarrow> real \<Rightarrow> real \<Rightarrow> bool" where
  "check_first_half_criterion current_price week_52_high week_52_low =
     (let midpoint = (week_52_high + week_52_low) / 2
      in week_52_low \<le> current_price \<and> current_price \<le> midpoint)"

definition check_monthly_candle_criterion :: "bar list \<Rightarrow> real \<Rightarrow> bool" where
  "check_monthly_candle_criterion data current_price =
     (let current_month = last_offset 30 data in
      if length current_month = 0 then False
      else
        case (series_max (map High current_month), series_min (map Low current_month)) of
          (Some monthly_high, Some monthly_low) \<Rightarrow>
            let range_75_percent = monthly_low + 0.75 * (monthly_high - monthly_low)
            in range_75_percent \<le> current_price \<and> current_price \<le> monthly_high
        | _ \<Rightarrow> False)"

definition check_weekly_candle_criterion :: "bar list \<Rightarrow> py_error + bool" where
  "check_weekly_candle_criterion data =
     (let weekly_data = weekly_bars data in
      if length weekly_data < 2 then Inr False
      else
        case iloc weekly_data (- 1) of
          Inl e \<Rightarrow> Inl e
        | Inr current_week \<Rightarrow>
            (case iloc weekly_data (- 2) of
               Inl e \<Rightarrow> Inl e
             | Inr previous_week \<Rightarrow>
                 let is_green = Close current_week > Open current_week;
                     higher_high = High current_week > High previous_week
                 in Inr (is_green \<or> higher_high)))"

section \<open>Position sizing\<close>

definition calculate_position_size ::
  "strategy \<Rightarrow> real \<Rightarrow> real \<Rightarrow> real \<Rightarrow> py_error + (int \<times> real \<times> real)" where
  "calculate_position_size self current_price stop_loss target_price =
     (let risk_per_share = current_price - stop_loss in
      if risk_per_share \<le> 0 then Inr (0, 0, 0)
      else
        let reward_per_share = target_price - current_price in
        case py_truediv reward_per_share risk_per_share of
          Inl e \<Rightarrow> Inl e
        | Inr risk_reward_ratio \<Rightarrow>
            if risk_reward_ratio \<le> 1 then Inr (0, 0, 0)
            else
              (case py_truediv (max_risk_amount self) risk_per_share of
                 Inl e \<Rightarrow> Inl e
               | Inr by_risk \<Rightarrow>
                   (case py_truediv (max_position_amount self) current_price of
                      Inl e \<Rightarrow> Inl e
                    | Inr by_position \<Rightarrow>
                        let max_qty_risk = py_int by_risk;
                            max_qty_position = py_int by_position;
                            quantity = min max_qty_risk max_qty_position
                        in
                          if quantity \<le> 0 then Inr (0, 0, 0)
                          else
                            let actual_risk = real_of_int quantity * risk_per_share;
                                potential_profit = real_of_int quantity * reward_per_share
                            in Inr (quantity, actual_risk, potential_profit))))"

section \<open>Screening\<close>

record screening_result =
  symbol :: string
  current_price :: real
  entry_price :: real
  stop_loss :: real
  target_price :: real
  quantity :: int
  risk_amount :: real
  profit_potential :: real
  risk_reward_ratio :: real
  market_cap :: real
  week_52_high :: real
  week_52_low :: real
  position_value :: real
  criterion_1 :: bool
  criterion_2 :: bool
  criterion_3 :: bool

text \<open>
  \<^verbatim>\<open>screen_stock\<close> returns \<^verbatim>\<open>None\<close> (here \<open>Inr None\<close>) for a rejected symbol and the result
  dict for an accepted one; an exception of the sizing step is not caught. The branch
  for a range of NaN values cannot be taken behind the length guard; there the first
  criterion compares with NaN and is false.
\<close>

definition screen_stock ::
  "strategy \<Rightarrow> yfinance \<Rightarrow> string \<Rightarrow> py_error + screening_result option" where
  "screen_stock self yf ticker =
     (let cap = get_market_cap yf ticker in
      if cap < 1000 then Inr None
      else
        case get_stock_data yf ticker of
          None \<Rightarrow> Inr None
        | Some data \<Rightarrow>
            if length data < 50 then Inr None
            else
              (case iloc (map Close data) (- 1) of
                 Inl e \<Rightarrow> Inl e
               | Inr price \<Rightarrow>
                   (case calculate_52_week_range data of
                      None \<Rightarrow> Inr None
                    | Some (high52, low52, midpoint) \<Rightarrow>
                        let c1 = check_first_half_criterion price high52 low52;
                            c2 = check_monthly_candle_criterion data price
                        in
                          (case check_weekly_candle_criterion data of
                             Inl e \<Rightarrow> Inl e
                           | Inr c3 \<Rightarrow>
                               if \<not> (c1 \<and> c2 \<and> c3) then Inr None
                               else
                                 (case calculate_position_size self price low52 high52 of
                                    Inl e \<Rightarrow> Inl e
                                  | Inr (qty, risk, profit) \<Rightarrow>
                                      if qty \<le> 0 then Inr None
                                      else
                                        Inr (Some
                                          \<lparr>symbol = ticker,
                                           current_price = price,
                                           entry_price = price,
                                           stop_loss = low52,
                                           target_price = high52,
                                           quantity = qty,
                                           risk_amount = risk,
                                           profit_potential = profit,
                                           risk_reward_ratio =
                                             (if risk > 0 then profit / risk else 0),
                                           market_cap = cap,
                                           week_52_high = high52,
                                           week_52_low = low52,
                                           position_value = price * real_of_int qty,
                                           criterion_1 = c1,
                                           criterion_2 = c2,
                                           criterion_3 = c3\<rparr>))))))"

text \<open>\<^verbatim>\<open>screen_all_stocks\<close>: the loop over the loaded symbols, in order.\<close>

fun screen_symbols ::
  "strategy \<Rightarrow> yfinance \<Rightarrow> string list \<Rightarrow> py_error + screening_result list" where
  "screen_symbols self yf [] = Inr []"
| "screen_symbols self yf (ticker # tickers) =
     (case screen_stock self yf ticker of
        Inl e \<Rightarrow> Inl e
      | Inr result \<Rightarrow>
          (case screen_symbols self yf tickers of
             Inl e \<Rightarrow> Inl e
           | Inr qualified \<Rightarrow>
               Inr ((case result of None \<Rightarrow> [] | Some r \<Rightarrow> [r]) @ qualified)))"

definition screen_all_stocks :: "strategy \<Rightarrow> yfinance \<Rightarrow> py_error + screening_result list" where
  "screen_all_stocks self yf = screen_symbols self yf (indian_stocks self)"

section \<open>Reference definitions for the statements\<close>

text \<open>
  The weekly bar of week \<open>w\<close> in the words of the specification: open is the first
  open of the week's daily bars, high their maximum, low their minimum, close the last
  close, volume the sum.
\<close>

definition spec_weekly_bar :: "bar list \<Rightarrow> int \<Rightarrow> bar" where
  "spec_weekly_bar data w =
     (let days = filter (\<lambda>b. week_of (Date b) = w) data in
      \<lparr>Date = week_label w,
       Open = Open (hd days),
       High = Max (High ` set days),
       Low = Min (Low ` set days),
       Close = Close (last days),
       Volume = (\<Sum>b\<leftarrow>days. Volume b)\<rparr>)"

text \<open>One weekly bar for each week that holds a daily bar, in the order of the weeks.\<close>

definition spec_weekly_bars :: "bar list \<Rightarrow> bar list" where
  "spec_weekly_bars data =
     map (spec_weekly_bar data) (sorted_list_of_set (week_of ` Date ` set data))"

text \<open>The three criteria of \<^verbatim>\<open>screen_stock\<close> on a frame, at its last close.\<close>

definition all_criteria :: "bar list \<Rightarrow> bool" where
  "all_criteria data \<longleftrightarrow>
     check_first_half_criterion (Close (last data)) (Max (High ` set data)) (Min (Low ` set data))
     \<and> check_monthly_candle_criterion data (Close (last data))
     \<and> check_weekly_candle_criterion data = Inr True"

text \<open>The dict that \<^verbatim>\<open>screen_stock\<close> builds once a symbol has passed.\<close>

definition make_result ::
  "string \<Rightarrow> real \<Rightarrow> bar list \<Rightarrow> int \<Rightarrow> real \<Rightarrow> real \<Rightarrow> screening_result" where
  "make_result ticker cap data qty risk profit =
     \<lparr>symbol = ticker,
      current_price = Close (last data),
      entry_price = Close (last data),
      stop_loss = Min (Low ` set data),
      target_price = Max (High ` set data),
      quantity = qty,
      risk_amount = risk,
      profit_potential = profit,
      risk_reward_ratio = (if risk > 0 then profit / risk else 0),
      market_cap = cap,
      week_52_high = Max (High ` set data),
      week_52_low = Min (Low ` set data),
      position_value = Close (last data) * real_of_int qty,
      criterion_1 = True,
      criterion_2 = True,
      criterion_3 = True\<rparr>"

subsection \<open>Sample market data\<close>

text \<open>
  A year that starts with 48 daily bars around 300 to 400 and ends, after a gap, with
  two bars just above 100: the last close 111 lies in the lower half of the range
  100 to 400 and in the top quarter of the last month's range 100 to 112, and the
  last week is green.
\<close>

definition demo_old_bar :: "int \<Rightarrow> bar" where
  "demo_old_bar day =
     \<lparr>Date = day, Open = 300, High = 400, Low = 290, Close = 300, Volume = 1000\<rparr>"

definition demo_recent :: "bar list" where
  "demo_recent =
     [\<lparr>Date = 100, Open = 100, High = 110, Low = 100, Close = 105, Volume = 2000\<rparr>,
      \<lparr>Date = 107, Open = 105, High = 112, Low = 104, Close = 111, Volume = 3000\<rparr>]"

definition demo_series :: "bar list" where
  "demo_series = map demo_old_bar [0..47] @ demo_recent"

text \<open>The same picture in three bars: too few for the length guard.\<close>

definition demo_short :: "bar list" where
  "demo_short = demo_old_bar 0 # demo_recent"

text \<open>
  Three bars with prices around zero: the criteria hold at the last close 0, and sizing
  at entry 0 with stop \<open>-1\<close> and target 3 divides by the entry price.
\<close>

definition demo_crash :: "bar list" where
  "demo_crash =
     [\<lparr>Date = 0, Open = 2, High = 3, Low = 1, Close = 2, Volume = 10\<rparr>,
      \<lparr>Date = 40, Open = - 1, High = 0, Low = - 1, Close = - 1 / 2, Volume = 10\<rparr>,
      \<lparr>Date = 47, Open = - 1 / 2, High = 1 / 4, Low = - 3 / 5, Close = 0, Volume = 10\<rparr>]"

text \<open>
  A provider without index constituents. \<^verbatim>\<open>SMALL.NS\<close> has a capitalisation of 830
  crores, every other symbol one of 8300 crores.
\<close>

definition demo_yf :: yfinance where
  "demo_yf =
     \<lparr>constituents = (\<lambda>index. None),
      ticker_info = (\<lambda>ticker. if ticker = ''SMALL.NS'' then Some (Some 100000000)
                              else Some (Some 1000000000)),
      history = (\<lambda>ticker. if ticker = ''DEMO.NS'' \<or> ticker = ''SMALL.NS'' then Some demo_series
                          else if ticker = ''SHORT.NS'' then Some demo_short
                          else if ticker = ''CRASH.NS'' then Some demo_crash
                          else None)\<rparr>"

text \<open>A second provider that agrees with the first on \<^verbatim>\<open>DEMO.NS\<close> only.\<close>

definition demo_yf_other :: yfinance where
  "demo_yf_other =
     \<lparr>constituents = (\<lambda>index. Some [''DEMO'']),
      ticker_info = (\<lambda>ticker. if ticker = ''DEMO.NS'' then Some (Some 1000000000) else None),
      history = (\<lambda>ticker. if ticker = ''DEMO.NS'' then Some demo_series else Some [])\<rparr>"

definition demo_strategy :: strategy where
  "demo_strategy = init_strategy demo_yf 10000 ''^NSEI''"

definition demo_strategy_other :: strategy where
  "demo_strategy_other = init_strategy demo_yf_other 10000 ''^BSESN''"

definition demo_result :: screening_result where
  "demo_result =
     \<lparr>symbol = ''DEMO.NS'',
      current_price = 111,
      entry_price = 111,
      stop_loss = 100,
      target_price = 400,
      quantity = 9,
      risk_amount = 99,
      profit_potential = 2601,
      risk_reward_ratio = 289 / 11,
      market_cap = 8300,
      week_52_high = 400,
      week_52_low = 100,
      position_value = 999,
      criterion_1 = True,
      criterion_2 = True,
      criterion_3 = True\<rparr>"


text \<open>
  Two consecutive weeks of one bar each; the earlier week has the high 200, the
  later week is given by its open, high and close.
\<close>

definition demo_prev_week :: bar where
  "demo_prev_week = \<lparr>Date = 0, Open = 190, High = 200, Low = 80, Close = 195, Volume = 10\<rparr>"

definition demo_weeks :: "real \<Rightarrow> real \<Rightarrow> real \<Rightarrow> bar list" where
  "demo_weeks opn hi cls =
     [demo_prev_week,
      \<lparr>Date = 7, Open = opn, High = hi, Low = 80, Close = cls, Volume = 10\<rparr>]"

section \<open>Position sizing: results\<close>

lemma py_int_nonpos_iff: "py_int x \<le> 0 \<longleftrightarrow> x < 1"
  unfolding py_int_def by (auto simp: floor_le_iff ceiling_le_iff)

lemma floor_nonpos_iff: "\<lfloor>x::real\<rfloor> \<le> 0 \<longleftrightarrow> x < 1"
  by (simp add: floor_le_iff)

lemma py_int_pos_floor: "0 < py_int x \<Longrightarrow> py_int x = \<lfloor>x\<rfloor>"
  unfolding py_int_def by (auto split: if_splits)

lemma min_py_int_nonpos_iff:
  "min (py_int a) (py_int b) \<le> 0 \<longleftrightarrow> min \<lfloor>a\<rfloor> \<lfloor>b\<rfloor> \<le> 0"
  by (simp add: min_le_iff_disj py_int_nonpos_iff floor_nonpos_iff)

lemma min_py_int_pos_floor:
  assumes "0 < min (py_int a) (py_int b)"
  shows "min (py_int a) (py_int b) = min \<lfloor>a\<rfloor> \<lfloor>b\<rfloor>"
proof -
  from assms have pa: "0 < py_int a" and pb: "0 < py_int b" by simp_all
  have "py_int a = \<lfloor>a\<rfloor>" using pa by (rule py_int_pos_floor)
  moreover have "py_int b = \<lfloor>b\<rfloor>" using pb by (rule py_int_pos_floor)
  ultimately show ?thesis by (simp only:)
qed

text \<open>
  C1, as amended. For every risk configuration and every input with a non-zero entry
  price, the position sizer returns \<open>(0, 0, 0)\<close> when entry minus stop is not positive,
  when the reward to risk ratio is at most 1, or when the smaller of the two floored
  quotients is not positive; otherwise it returns that quantity, the quantity times the
  risk per share and the quantity times the reward per share. With a risk limit of 200
  and a position limit of 1000, entry 100, stop 90 and target 130 give \<open>(10, 100, 300)\<close>.
  The code truncates with \<^verbatim>\<open>int\<close> where the statement takes the floor.
\<close>

theorem calculate_position_size_spec:
  assumes "entry \<noteq> 0"
  shows "calculate_position_size self entry stop target =
    (let q = min \<lfloor>max_risk_amount self / (entry - stop)\<rfloor>
                 \<lfloor>max_position_amount self / entry\<rfloor> in
     if entry - stop \<le> 0 \<or> (target - entry) / (entry - stop) \<le> 1 \<or> q \<le> 0
     then Inr (0, 0, 0)
     else Inr (q, real_of_int q * (entry - stop), real_of_int q * (target - entry)))"
proof (cases "entry - stop \<le> 0")
  case True
  then show ?thesis by (simp add: calculate_position_size_def Let_def)
next
  case risk: False
  show ?thesis
  proof (cases "(target - entry) / (entry - stop) \<le> 1")
    case True
    with risk show ?thesis
      by (simp add: calculate_position_size_def Let_def py_truediv_def)
  next
    case rr: False
    let ?a = "max_risk_amount self / (entry - stop)"
    let ?b = "max_position_amount self / entry"
    show ?thesis
    proof (cases "min (py_int ?a) (py_int ?b) \<le> 0")
      case True
      then have "min \<lfloor>?a\<rfloor> \<lfloor>?b\<rfloor> \<le> 0" by (simp only: min_py_int_nonpos_iff)
      with True risk rr assms show ?thesis
        by (simp add: calculate_position_size_def Let_def py_truediv_def)
    next
      case False
      then have "0 < min (py_int ?a) (py_int ?b)" by (simp only: not_le)
      then have eq: "min (py_int ?a) (py_int ?b) = min \<lfloor>?a\<rfloor> \<lfloor>?b\<rfloor>"
        by (rule min_py_int_pos_floor)
      with False have "\<not> min \<lfloor>?a\<rfloor> \<lfloor>?b\<rfloor> \<le> 0" by simp
      with False risk rr assms eq show ?thesis
        by (simp add: calculate_position_size_def Let_def py_truediv_def)
    qed
  qed
qed

text \<open>The example of the specification, and one input for each way to \<open>(0, 0, 0)\<close>.\<close>

theorem calculate_position_size_spec_witness:
  "(100::real) \<noteq> 0
   \<and> max_risk_amount demo_strategy = 200
   \<and> max_position_amount demo_strategy = 1000
   \<and> calculate_position_size demo_strategy 100 90 130 = Inr (10, 100, 300)
   \<and> calculate_position_size demo_strategy 100 100 130 = Inr (0, 0, 0)
   \<and> calculate_position_size demo_strategy 100 90 108 = Inr (0, 0, 0)
   \<and> calculate_position_size demo_strategy 2000 1000 4000 = Inr (0, 0, 0)"
  using calculate_position_size_spec [of 100 demo_strategy 90 130]
    calculate_position_size_spec [of 100 demo_strategy 100 130]
    calculate_position_size_spec [of 100 demo_strategy 90 108]
    calculate_position_size_spec [of 2000 demo_strategy 1000 4000]
  by (simp add: demo_strategy_def init_strategy_def)

text \<open>
  With entry 0, stop \<open>-1\<close> and target 2 both guards pass and the quotient by the entry
  price raises: the sizer returns no triple at all.
\<close>

theorem calculate_position_size_zero_entry:
  "calculate_position_size demo_strategy 0 (- 1) 2 = Inl ZeroDivisionError"
  by (simp add: calculate_position_size_def demo_strategy_def init_strategy_def py_truediv_def)

section \<open>The criteria: results\<close>

lemma series_max_eq: "series_max xs = (if xs = [] then None else Some (Max (set xs)))"
proof (cases xs)
  case Nil
  then show ?thesis by simp
next
  case (Cons x ys)
  have "fold max ys x = Max (set (x # ys))" by (rule Max.set_eq_fold [symmetric])
  with Cons show ?thesis by simp
qed

lemma series_min_eq: "series_min xs = (if xs = [] then None else Some (Min (set xs)))"
proof (cases xs)
  case Nil
  then show ?thesis by simp
next
  case (Cons x ys)
  have "fold min ys x = Min (set (x # ys))" by (rule Min.set_eq_fold [symmetric])
  with Cons show ?thesis by simp
qed

subsection \<open>First half of the 52-week range\<close>

lemma calculate_52_week_range_eq:
  "data \<noteq> [] \<Longrightarrow>
   calculate_52_week_range data =
     Some (Max (High ` set data), Min (Low ` set data),
           (Max (High ` set data) + Min (Low ` set data)) / 2)"
  by (simp add: calculate_52_week_range_def series_max_eq series_min_eq)





subsection \<open>Position in the monthly candle\<close>








subsection \<open>Weekly momentum\<close>

lemma iloc_last: "xs \<noteq> [] \<Longrightarrow> iloc xs (- 1) = Inr (last xs)"
proof -
  assume ne: "xs \<noteq> []"
  then have "0 < length xs" by simp
  then have "nat (- 1 + int (length xs)) = length xs - 1" by linarith
  with ne show ?thesis by (simp add: iloc_def last_conv_nth)
qed

lemma iloc_second_last: "2 \<le> length xs \<Longrightarrow> iloc xs (- 2) = Inr (xs ! (length xs - 2))"
proof -
  assume len: "2 \<le> length xs"
  then have "nat (- 2 + int (length xs)) = length xs - 2" by linarith
  with len show ?thesis by (simp add: iloc_def)
qed

text \<open>Behind the length guard neither \<^verbatim>\<open>iloc[-1]\<close> nor \<^verbatim>\<open>iloc[-2]\<close> raises.\<close>

lemma check_weekly_candle_criterion_eq:
  "check_weekly_candle_criterion data =
     Inr (let weekly = weekly_bars data in
          2 \<le> length weekly
          \<and> (Open (last weekly) < Close (last weekly)
             \<or> High (weekly ! (length weekly - 2)) < High (last weekly)))"
proof (cases "length (weekly_bars data) < 2")
  case True
  then show ?thesis by (simp add: check_weekly_candle_criterion_def Let_def)
next
  case False
  then have len: "2 \<le> length (weekly_bars data)" by simp
  then have ne: "weekly_bars data \<noteq> []" by auto
  show ?thesis
    using len by (simp add: check_weekly_candle_criterion_def Let_def iloc_last [OF ne]
        iloc_second_last [OF len])
qed

lemma agg_week_eq:
  "agg_week (w, filter (\<lambda>b. week_of (Date b) = w) data) =
     (if filter (\<lambda>b. week_of (Date b) = w) data = [] then None
      else Some (spec_weekly_bar data w))"
proof (cases "filter (\<lambda>b. week_of (Date b) = w) data")
  case Nil
  then show ?thesis by simp
next
  case (Cons b bs)
  have "fold max (map High bs) (High b) = Max (set (High b # map High bs))"
    by (rule Max.set_eq_fold [symmetric])
  moreover have "fold min (map Low bs) (Low b) = Min (set (Low b # map Low bs))"
    by (rule Min.set_eq_fold [symmetric])
  ultimately show ?thesis using Cons by (simp add: spec_weekly_bar_def)
qed

lemma dropna_agg_week:
  "dropna (map agg_week (map (\<lambda>w. (w, filter (\<lambda>b. week_of (Date b) = w) data)) ws)) =
     map (spec_weekly_bar data) (filter (\<lambda>w. w \<in> week_of ` Date ` set data) ws)"
proof (induction ws)
  case Nil
  then show ?case by simp
next
  case (Cons w ws)
  have mem: "w \<in> week_of ` Date ` set data \<longleftrightarrow> filter (\<lambda>b. week_of (Date b) = w) data \<noteq> []"
    by (auto simp: filter_empty_conv)
  show ?case
    using Cons.IH by (simp add: agg_week_eq mem del: agg_week.simps)
qed

lemma week_of_mono: "a \<le> b \<Longrightarrow> week_of a \<le> week_of b"
  by (simp add: week_of_def zdiv_mono1)

lemma weeks_in_range:
  assumes "data \<noteq> []"
  shows "week_of ` Date ` set data
           \<subseteq> {week_of (Min (Date ` set data)) .. week_of (Max (Date ` set data))}"
proof
  fix w assume "w \<in> week_of ` Date ` set data"
  then obtain b where b: "b \<in> set data" and w: "w = week_of (Date b)" by auto
  have "Min (Date ` set data) \<le> Date b" and "Date b \<le> Max (Date ` set data)"
    using b by simp_all
  then show "w \<in> {week_of (Min (Date ` set data)) .. week_of (Max (Date ` set data))}"
    unfolding w by (simp add: week_of_mono)
qed

lemma filter_upto_sorted_list:
  assumes "W \<subseteq> {lo..hi}"
  shows "filter (\<lambda>w. w \<in> W) [lo..hi] = sorted_list_of_set W"
proof -
  have fin: "finite W" using assms by (rule finite_subset) simp
  have "set (filter (\<lambda>w. w \<in> W) [lo..hi]) = W" using assms by auto
  moreover have "sorted (filter (\<lambda>w. w \<in> W) [lo..hi])"
    using sorted_filter [of "\<lambda>x. x" "[lo..hi]"] by simp
  moreover have "distinct (filter (\<lambda>w. w \<in> W) [lo..hi])" by simp
  ultimately show ?thesis
    using fin by (intro sorted_distinct_set_unique) simp_all
qed

text \<open>
  Resampling, aggregating and dropping the empty weeks yields the weekly bars of the
  specification: one per week with a daily bar, in the order of the weeks.
\<close>

lemma weekly_bars_eq: "weekly_bars data = spec_weekly_bars data"
proof (cases "data = []")
  case True
  then show ?thesis
    by (simp add: weekly_bars_def resample_W_def spec_weekly_bars_def)
next
  case False
  then have "resample_W data =
      map (\<lambda>w. (w, filter (\<lambda>b. week_of (Date b) = w) data))
        [week_of (Min (Date ` set data)) .. week_of (Max (Date ` set data))]"
    by (simp add: resample_W_def series_min_eq series_max_eq)
  then show ?thesis
    unfolding weekly_bars_def spec_weekly_bars_def
    by (simp only: dropna_agg_week filter_upto_sorted_list [OF weeks_in_range [OF False]])
qed

lemma length_weekly_bars: "length (weekly_bars data) = card (week_of ` Date ` set data)"
  by (simp add: weekly_bars_eq spec_weekly_bars_def)

text \<open>
  C5. With the daily series resampled into weekly bars (open the first, high the
  maximum, low the minimum, close the last, volume the sum of the week's daily bars),
  the weekly criterion is false when there are fewer than two weekly bars; otherwise it
  holds exactly when the latest weekly bar closes above its open or has a high strictly
  above the high of the weekly bar before it. It never raises.
\<close>

theorem weekly_candle_criterion_spec:
  "check_weekly_candle_criterion data =
     Inr (let weekly = spec_weekly_bars data in
          if length weekly < 2 then False
          else Open (last weekly) < Close (last weekly)
               \<or> High (weekly ! (length weekly - 2)) < High (last weekly))"
  by (auto simp add: check_weekly_candle_criterion_eq weekly_bars_eq Let_def)

lemma demo_weeks_bars:
  "weekly_bars (demo_weeks opn hi cls) =
     [\<lparr>Date = 3, Open = 190, High = 200, Low = 80, Close = 195, Volume = 10\<rparr>,
      \<lparr>Date = 10, Open = opn, High = hi, Low = 80, Close = cls, Volume = 10\<rparr>]"
  by (simp add: weekly_bars_def resample_W_def week_of_def week_label_def demo_weeks_def
      demo_prev_week_def upto.simps)

lemma demo_one_week_bars:
  "weekly_bars [demo_prev_week] =
     [\<lparr>Date = 3, Open = 190, High = 200, Low = 80, Close = 195, Volume = 10\<rparr>]"
  by (simp add: weekly_bars_def resample_W_def week_of_def week_label_def demo_prev_week_def
      upto.simps)

lemma no_weekly_bars: "weekly_bars [] = []"
  by (simp add: weekly_bars_def resample_W_def)

text \<open>
  The cases of the specification: a green week with a lower high, a red week with the
  higher high 210 above 200, a red week without a higher high, and a single week.
\<close>

theorem weekly_candle_criterion_spec_witness:
  "check_weekly_candle_criterion (demo_weeks 100 150 105) = Inr True
   \<and> check_weekly_candle_criterion (demo_weeks 105 210 100) = Inr True
   \<and> check_weekly_candle_criterion (demo_weeks 105 200 100) = Inr False
   \<and> check_weekly_candle_criterion [demo_prev_week] = Inr False
   \<and> check_weekly_candle_criterion [] = Inr False"
  using weekly_candle_criterion_spec [of "demo_weeks 100 150 105"]
    weekly_candle_criterion_spec [of "demo_weeks 105 210 100"]
    weekly_candle_criterion_spec [of "demo_weeks 105 200 100"]
    weekly_candle_criterion_spec [of "[demo_prev_week]"]
    weekly_candle_criterion_spec [of "[]"]
  by (simp add: weekly_bars_eq [symmetric] demo_weeks_bars demo_one_week_bars no_weekly_bars)

section \<open>Screening: results\<close>

text \<open>Behind both guards \<^verbatim>\<open>screen_stock\<close> is decided by the criteria and the sizer.\<close>

lemma screen_stock_guarded:
  assumes "1000 \<le> get_market_cap yf ticker"
    and "get_stock_data yf ticker = Some data"
    and "50 \<le> length data"
  shows "screen_stock self yf ticker =
     (if \<not> all_criteria data then Inr None
      else
        case calculate_position_size self (Close (last data))
               (Min (Low ` set data)) (Max (High ` set data)) of
          Inl e \<Rightarrow> Inl e
        | Inr (qty, risk, profit) \<Rightarrow>
            if qty \<le> 0 then Inr None
            else Inr (Some (make_result ticker (get_market_cap yf ticker) data qty risk profit)))"
proof -
  from assms(3) have ne: "data \<noteq> []" by auto
  then have price: "iloc (map Close data) (- 1) = Inr (Close (last data))"
    using iloc_last [of "map Close data"] by (simp add: last_map)
  obtain c3 where c3: "check_weekly_candle_criterion data = Inr c3"
    using check_weekly_candle_criterion_eq [of data] by blast
  show ?thesis
    using assms
    by (simp add: screen_stock_def Let_def price calculate_52_week_range_eq [OF ne] c3
        all_criteria_def make_result_def split: sum.split prod.split)
qed

lemma screen_stock_rejected:
  assumes "get_market_cap yf ticker < 1000
           \<or> get_stock_data yf ticker = None
           \<or> (\<exists>data. get_stock_data yf ticker = Some data \<and> length data < 50)"
  shows "screen_stock self yf ticker = Inr None"
  using assms by (auto simp: screen_stock_def Let_def)

lemma screen_stock_accepted:
  assumes "screen_stock self yf ticker = Inr (Some r)"
  obtains data qty risk profit where
    "1000 \<le> get_market_cap yf ticker"
    "get_stock_data yf ticker = Some data"
    "50 \<le> length data"
    "all_criteria data"
    "calculate_position_size self (Close (last data))
       (Min (Low ` set data)) (Max (High ` set data)) = Inr (qty, risk, profit)"
    "0 < qty"
    "r = make_result ticker (get_market_cap yf ticker) data qty risk profit"
proof -
  have cap: "1000 \<le> get_market_cap yf ticker"
    using assms screen_stock_rejected [of yf ticker self] by force
  obtain data where data: "get_stock_data yf ticker = Some data"
    using assms screen_stock_rejected [of yf ticker self]
    by (cases "get_stock_data yf ticker") auto
  have len: "50 \<le> length data"
    using assms data screen_stock_rejected [of yf ticker self] by force
  note eq = screen_stock_guarded [OF cap data len, of self]
  from assms eq have crit: "all_criteria data" by (auto split: if_splits)
  from assms eq crit obtain qty risk profit where
    "calculate_position_size self (Close (last data))
       (Min (Low ` set data)) (Max (High ` set data)) = Inr (qty, risk, profit)"
    "0 < qty" "r = make_result ticker (get_market_cap yf ticker) data qty risk profit"
    by (auto split: sum.splits prod.splits if_splits)
  with cap data len crit show ?thesis by (rule that)
qed

lemma calculate_position_size_positive:
  assumes "calculate_position_size self entry stop target = Inr (qty, risk, profit)"
    and "0 < qty"
  shows "0 < entry - stop"
    and "entry \<noteq> 0"
    and "real_of_int qty \<le> max_risk_amount self / (entry - stop)"
    and "real_of_int qty \<le> max_position_amount self / entry"
    and "risk = real_of_int qty * (entry - stop)"
    and "profit = real_of_int qty * (target - entry)"
proof -
  from assms show pos: "0 < entry - stop"
    by (auto simp: calculate_position_size_def Let_def split: if_splits)
  from assms pos show nz: "entry \<noteq> 0"
    by (auto simp: calculate_position_size_def Let_def py_truediv_def split: if_splits)
  from assms pos nz have q: "qty = min (py_int (max_risk_amount self / (entry - stop)))
                              (py_int (max_position_amount self / entry))"
    and r: "risk = real_of_int qty * (entry - stop)"
    and p: "profit = real_of_int qty * (target - entry)"
    by (auto simp: calculate_position_size_def Let_def py_truediv_def split: if_splits)
  from r show "risk = real_of_int qty * (entry - stop)" .
  from p show "profit = real_of_int qty * (target - entry)" .
  from q assms(2) have a: "0 < py_int (max_risk_amount self / (entry - stop))"
    and b: "0 < py_int (max_position_amount self / entry)" by simp_all
  have "qty \<le> py_int (max_risk_amount self / (entry - stop))" using q by simp
  also have "\<dots> = \<lfloor>max_risk_amount self / (entry - stop)\<rfloor>"
    using a by (rule py_int_pos_floor)
  finally show "real_of_int qty \<le> max_risk_amount self / (entry - stop)" by linarith
  have "qty \<le> py_int (max_position_amount self / entry)" using q by simp
  also have "\<dots> = \<lfloor>max_position_amount self / entry\<rfloor>"
    using b by (rule py_int_pos_floor)
  finally show "real_of_int qty \<le> max_position_amount self / entry" by linarith
qed

subsection \<open>The sample data, evaluated\<close>

lemma demo_series_length: "length demo_series = 50"
  by (simp add: demo_series_def demo_recent_def upto.simps)

lemma demo_series_last: "Close (last demo_series) = 111"
  by (simp add: demo_series_def demo_recent_def)

lemma demo_series_extremes:
  "Max (High ` set demo_series) = 400" "Min (Low ` set demo_series) = 100"
proof -
  have "calculate_52_week_range demo_series = Some (400, 100, 250)"
    by (simp add: calculate_52_week_range_def demo_series_def demo_recent_def
        demo_old_bar_def upto.simps)
  moreover have "demo_series \<noteq> []" by (simp add: demo_series_def demo_recent_def)
  ultimately show "Max (High ` set demo_series) = 400" "Min (Low ` set demo_series) = 100"
    by (simp_all add: calculate_52_week_range_eq)
qed

lemma demo_series_monthly: "check_monthly_candle_criterion demo_series 111"
  by (simp add: check_monthly_candle_criterion_def last_offset_def demo_series_def
      demo_recent_def demo_old_bar_def upto.simps)

lemma demo_series_weekly: "check_weekly_candle_criterion demo_series = Inr True"
  by (simp add: check_weekly_candle_criterion_def weekly_bars_def resample_W_def week_of_def
      week_label_def demo_series_def demo_recent_def demo_old_bar_def upto.simps iloc_def)

lemma demo_series_criteria: "all_criteria demo_series"
  by (simp add: all_criteria_def demo_series_last demo_series_extremes demo_series_monthly
      demo_series_weekly check_first_half_criterion_def)

lemma demo_sizing: "calculate_position_size demo_strategy 111 100 400 = Inr (9, 99, 2601)"
  by (simp add: calculate_position_size_def demo_strategy_def init_strategy_def
      py_truediv_def py_int_def)

lemma demo_provider:
  "get_market_cap demo_yf ''DEMO.NS'' = 8300"
  "get_stock_data demo_yf ''DEMO.NS'' = Some demo_series"
  "get_market_cap demo_yf ''SMALL.NS'' = 830"
  "get_stock_data demo_yf ''SMALL.NS'' = Some demo_series"
  "get_market_cap demo_yf ''SHORT.NS'' = 8300"
  "get_stock_data demo_yf ''SHORT.NS'' = Some demo_short"
  "get_market_cap demo_yf ''CRASH.NS'' = 8300"
  "get_stock_data demo_yf ''CRASH.NS'' = Some demo_crash"
  "get_market_cap demo_yf_other ''DEMO.NS'' = 8300"
  "get_stock_data demo_yf_other ''DEMO.NS'' = Some demo_series"
  by (simp_all add: get_market_cap_def get_stock_data_def demo_yf_def demo_yf_other_def)

lemma demo_accepted: "screen_stock demo_strategy demo_yf ''DEMO.NS'' = Inr (Some demo_result)"
proof -
  have "1000 \<le> get_market_cap demo_yf ''DEMO.NS''" by (simp add: demo_provider)
  moreover have "50 \<le> length demo_series" by (simp add: demo_series_length)
  ultimately show ?thesis
    using demo_provider(2)
    by (simp add: screen_stock_guarded [where data = demo_series] demo_series_criteria
        demo_series_last demo_series_extremes demo_sizing make_result_def demo_result_def
        demo_provider(1))
qed

lemma demo_short_range: "calculate_52_week_range demo_short = Some (400, 100, 250)"
  by (simp add: calculate_52_week_range_def demo_short_def demo_recent_def demo_old_bar_def)

lemma demo_short_monthly: "check_monthly_candle_criterion demo_short 111"
  by (simp add: check_monthly_candle_criterion_def last_offset_def demo_short_def
      demo_recent_def demo_old_bar_def)

lemma demo_short_weekly: "check_weekly_candle_criterion demo_short = Inr True"
  by (simp add: check_weekly_candle_criterion_def weekly_bars_def resample_W_def week_of_def
      week_label_def demo_short_def demo_recent_def demo_old_bar_def upto.simps iloc_def)

lemma demo_crash_criteria: "all_criteria demo_crash"
  by (simp add: all_criteria_def check_first_half_criterion_def
      check_monthly_candle_criterion_def last_offset_def check_weekly_candle_criterion_def
      weekly_bars_def resample_W_def week_of_def week_label_def upto.simps iloc_def
      demo_crash_def)

subsection \<open>Acceptance\<close>

text \<open>
  C2, as amended. For every symbol whose market capitalisation is at least 1000 and
  whose fetched series has at least 50 bars, \<^verbatim>\<open>screen_stock\<close> returns a result exactly
  when the three criteria hold at the last close and \<^verbatim>\<open>calculate_position_size\<close>, called
  with the last close, the 52-week low and the 52-week high, yields a quantity above 0.
\<close>

theorem screen_stock_result_iff:
  assumes "1000 \<le> get_market_cap yf ticker"
    and "get_stock_data yf ticker = Some data"
    and "50 \<le> length data"
  shows "(\<exists>r. screen_stock self yf ticker = Inr (Some r)) \<longleftrightarrow>
     (let price = Close (last data);
          high52 = Max (High ` set data);
          low52 = Min (Low ` set data)
      in check_first_half_criterion price high52 low52
         \<and> check_monthly_candle_criterion data price
         \<and> check_weekly_candle_criterion data = Inr True
         \<and> (\<exists>qty risk profit.
               calculate_position_size self price low52 high52 = Inr (qty, risk, profit)
               \<and> 0 < qty))"
  unfolding screen_stock_guarded [OF assms] Let_def all_criteria_def
  by (auto split: sum.splits prod.splits)

theorem screen_stock_result_iff_witness:
  "1000 \<le> get_market_cap demo_yf ''DEMO.NS''
   \<and> get_stock_data demo_yf ''DEMO.NS'' = Some demo_series
   \<and> 50 \<le> length demo_series
   \<and> check_first_half_criterion 111 400 100
   \<and> check_monthly_candle_criterion demo_series 111
   \<and> check_weekly_candle_criterion demo_series = Inr True
   \<and> calculate_position_size demo_strategy 111 100 400 = Inr (9, 99, 2601)
   \<and> (\<exists>r. screen_stock demo_strategy demo_yf ''DEMO.NS'' = Inr (Some r))"
proof -
  have cap: "1000 \<le> get_market_cap demo_yf ''DEMO.NS''" by (simp add: demo_provider)
  have len: "50 \<le> length demo_series" by (simp add: demo_series_length)
  have c1: "check_first_half_criterion 111 400 100"
    by (simp add: check_first_half_criterion_def)
  note iff = screen_stock_result_iff [OF cap demo_provider(2) len, of demo_strategy,
      unfolded Let_def demo_series_last demo_series_extremes]
  have "\<exists>r. screen_stock demo_strategy demo_yf ''DEMO.NS'' = Inr (Some r)"
    unfolding iff using c1 demo_series_monthly demo_series_weekly demo_sizing by simp
  with cap len c1 show ?thesis
    by (simp add: demo_provider(2) demo_series_monthly demo_series_weekly demo_sizing)
qed

text \<open>
  The claim without the two guards fails: the three bars of \<^verbatim>\<open>SHORT.NS\<close> meet all three
  criteria at the last close 111 and size to 9 shares, and the symbol is rejected.
\<close>

theorem screen_stock_result_iff_needs_guards:
  "get_market_cap demo_yf ''SHORT.NS'' = 8300
   \<and> get_stock_data demo_yf ''SHORT.NS'' = Some demo_short
   \<and> length demo_short = 3
   \<and> iloc (map Close demo_short) (- 1) = Inr 111
   \<and> calculate_52_week_range demo_short = Some (400, 100, 250)
   \<and> check_first_half_criterion 111 400 100
   \<and> check_monthly_candle_criterion demo_short 111
   \<and> check_weekly_candle_criterion demo_short = Inr True
   \<and> calculate_position_size demo_strategy 111 100 400 = Inr (9, 99, 2601)
   \<and> screen_stock demo_strategy demo_yf ''SHORT.NS'' = Inr None"
proof -
  have "length demo_short = 3" and "iloc (map Close demo_short) (- 1) = Inr 111"
    by (simp_all add: demo_short_def demo_recent_def iloc_def)
  moreover have "check_first_half_criterion 111 400 100"
    by (simp add: check_first_half_criterion_def)
  moreover have "screen_stock demo_strategy demo_yf ''SHORT.NS'' = Inr None"
    by (rule screen_stock_rejected) (simp add: demo_provider demo_short_def demo_recent_def)
  ultimately show ?thesis
    by (simp add: demo_provider demo_short_range demo_short_monthly demo_short_weekly
        demo_sizing)
qed

subsection \<open>The guards\<close>

text \<open>
  C6. A symbol whose market capitalisation is below 1000 crores, or whose fetched
  series has fewer than 50 bars, is rejected: \<^verbatim>\<open>screen_stock\<close> returns no result,
  whatever the criteria and the sizer would give on its bars, and without the
  exception that sizing can raise.
\<close>

theorem screen_stock_guards:
  assumes "get_market_cap yf ticker < 1000
           \<or> (\<exists>data. get_stock_data yf ticker = Some data \<and> length data < 50)"
  shows "screen_stock self yf ticker = Inr None"
  using assms by (auto simp: screen_stock_def Let_def)

text \<open>
  \<^verbatim>\<open>SMALL.NS\<close> has the bars of the accepted \<^verbatim>\<open>DEMO.NS\<close> and too small a capitalisation;
  \<^verbatim>\<open>SHORT.NS\<close> and \<^verbatim>\<open>CRASH.NS\<close> have three bars that meet the criteria, and sizing the
  latter would raise.
\<close>

theorem screen_stock_guards_witness:
  "get_market_cap demo_yf ''SMALL.NS'' < 1000
   \<and> get_stock_data demo_yf ''SMALL.NS'' = Some demo_series
   \<and> all_criteria demo_series
   \<and> screen_stock demo_strategy demo_yf ''DEMO.NS'' = Inr (Some demo_result)
   \<and> screen_stock demo_strategy demo_yf ''SMALL.NS'' = Inr None
   \<and> get_stock_data demo_yf ''SHORT.NS'' = Some demo_short
   \<and> length demo_short < 50
   \<and> screen_stock demo_strategy demo_yf ''SHORT.NS'' = Inr None
   \<and> get_stock_data demo_yf ''CRASH.NS'' = Some demo_crash
   \<and> length demo_crash < 50
   \<and> all_criteria demo_crash
   \<and> calculate_position_size demo_strategy 0 (- 1) 3 = Inl ZeroDivisionError
   \<and> screen_stock demo_strategy demo_yf ''CRASH.NS'' = Inr None"
proof -
  have small: "get_market_cap demo_yf ''SMALL.NS'' < 1000" by (simp add: demo_provider)
  have short: "length demo_short < 50" by (simp add: demo_short_def demo_recent_def)
  have crash: "length demo_crash < 50" by (simp add: demo_crash_def)
  have "screen_stock demo_strategy demo_yf ''SMALL.NS'' = Inr None"
    using small by (intro screen_stock_guards) simp
  moreover have "screen_stock demo_strategy demo_yf ''SHORT.NS'' = Inr None"
    using short demo_provider(6) by (intro screen_stock_guards) simp
  moreover have "screen_stock demo_strategy demo_yf ''CRASH.NS'' = Inr None"
    using crash demo_provider(8) by (intro screen_stock_guards) simp
  moreover have "calculate_position_size demo_strategy 0 (- 1) 3 = Inl ZeroDivisionError"
    by (simp add: calculate_position_size_def demo_strategy_def init_strategy_def
        py_truediv_def)
  ultimately show ?thesis
    using small short crash
    by (simp add: demo_provider demo_series_criteria demo_crash_criteria demo_accepted)
qed

subsection \<open>The fields of a result\<close>

text \<open>
  C7. In every result that \<^verbatim>\<open>screen_stock\<close> returns, the stop loss is the minimum of Low
  over the fetched series, the target price is the maximum of High over it, and the
  entry price and the current price are the close of its last bar; quantity, risk
  amount and profit potential are what the sizer returns on these three inputs.
\<close>

theorem screening_result_sizing_inputs:
  assumes "screen_stock self yf ticker = Inr (Some r)"
  shows "\<exists>data. get_stock_data yf ticker = Some data
           \<and> data \<noteq> []
           \<and> stop_loss r = Min (Low ` set data)
           \<and> target_price r = Max (High ` set data)
           \<and> entry_price r = Close (last data)
           \<and> current_price r = Close (last data)
           \<and> calculate_position_size self (entry_price r) (stop_loss r) (target_price r)
                = Inr (quantity r, risk_amount r, profit_potential r)"
proof -
  from assms obtain data qty risk profit where
    d: "get_stock_data yf ticker = Some data" and len: "50 \<le> length data"
    and sz: "calculate_position_size self (Close (last data))
       (Min (Low ` set data)) (Max (High ` set data)) = Inr (qty, risk, profit)"
    and r: "r = make_result ticker (get_market_cap yf ticker) data qty risk profit"
    by (rule screen_stock_accepted)
  from len have "data \<noteq> []" by auto
  with d sz show ?thesis unfolding r by (auto simp: make_result_def)
qed

theorem screening_result_sizing_inputs_witness:
  "screen_stock demo_strategy demo_yf ''DEMO.NS'' = Inr (Some demo_result)
   \<and> get_stock_data demo_yf ''DEMO.NS'' = Some demo_series
   \<and> stop_loss demo_result = Min (Low ` set demo_series)
   \<and> target_price demo_result = Max (High ` set demo_series)
   \<and> entry_price demo_result = Close (last demo_series)
   \<and> current_price demo_result = Close (last demo_series)
   \<and> stop_loss demo_result = 100
   \<and> target_price demo_result = 400
   \<and> entry_price demo_result = 111"
  using screening_result_sizing_inputs [OF demo_accepted] demo_accepted
  by (auto simp: demo_provider(2) demo_result_def)

subsection \<open>Determinism\<close>

text \<open>
  C9. The outcome of \<^verbatim>\<open>screen_stock\<close> for a symbol is a function of the symbol, its market
  capitalisation, its price series and the two limits of the risk configuration: two
  runs that agree on these return the same decision and, when they accept, the same
  result in every field, whatever else differs in the provider or the strategy object.
\<close>

theorem screen_stock_deterministic:
  assumes "get_market_cap yf1 ticker = get_market_cap yf2 ticker"
    and "get_stock_data yf1 ticker = get_stock_data yf2 ticker"
    and "max_risk_amount self1 = max_risk_amount self2"
    and "max_position_amount self1 = max_position_amount self2"
  shows "screen_stock self1 yf1 ticker = screen_stock self2 yf2 ticker"
proof -
  have "calculate_position_size self1 = calculate_position_size self2"
    by (intro ext) (simp only: calculate_position_size_def assms(3,4))
  then show ?thesis by (simp only: screen_stock_def assms(1,2))
qed

theorem screen_stock_deterministic_witness:
  "get_market_cap demo_yf ''DEMO.NS'' = get_market_cap demo_yf_other ''DEMO.NS''
   \<and> get_stock_data demo_yf ''DEMO.NS'' = get_stock_data demo_yf_other ''DEMO.NS''
   \<and> max_risk_amount demo_strategy = max_risk_amount demo_strategy_other
   \<and> max_position_amount demo_strategy = max_position_amount demo_strategy_other
   \<and> indian_stocks demo_strategy_other = [''DEMO.NS'']
   \<and> get_stock_data demo_yf ''SHORT.NS'' \<noteq> get_stock_data demo_yf_other ''SHORT.NS''
   \<and> screen_stock demo_strategy_other demo_yf_other ''DEMO.NS'' = Inr (Some demo_result)
   \<and> screen_stock demo_strategy demo_yf ''DEMO.NS''
       = screen_stock demo_strategy_other demo_yf_other ''DEMO.NS''"
proof -
  have caps: "get_market_cap demo_yf ''DEMO.NS'' = get_market_cap demo_yf_other ''DEMO.NS''"
    and data: "get_stock_data demo_yf ''DEMO.NS'' = get_stock_data demo_yf_other ''DEMO.NS''"
    by (simp_all add: demo_provider)
  have risk: "max_risk_amount demo_strategy = max_risk_amount demo_strategy_other"
    and pos: "max_position_amount demo_strategy = max_position_amount demo_strategy_other"
    by (simp_all add: demo_strategy_def demo_strategy_other_def init_strategy_def)
  note same = screen_stock_deterministic [OF caps data risk pos]
  have "indian_stocks demo_strategy_other = [''DEMO.NS'']"
    by (simp add: demo_strategy_other_def init_strategy_def get_nifty_symbols_def
        demo_yf_other_def endswith_def)
  moreover have
    "get_stock_data demo_yf ''SHORT.NS'' \<noteq> get_stock_data demo_yf_other ''SHORT.NS''"
    by (simp add: get_stock_data_def demo_yf_def demo_yf_other_def demo_short_def)
  ultimately show ?thesis
    using same caps data risk pos demo_accepted by simp
qed

subsection \<open>Capital limits\<close>

text \<open>
  C10. Every result that \<^verbatim>\<open>screen_stock\<close> returns for a strategy initialised with a
  portfolio capital respects both limits: given a positive entry price and a positive
  distance from entry to stop, the risk amount is at most the risk limit, which is the
  capital times 0.02, and the position value, the current price times the quantity, is
  at most the position limit, which is the capital times 0.10.
\<close>

theorem screening_result_capital_limits:
  assumes "screen_stock self yf ticker = Inr (Some r)"
    and "self = init_strategy yf0 capital index"
    and "0 < entry_price r"
    and "0 < entry_price r - stop_loss r"
  shows "risk_amount r \<le> max_risk_amount self
         \<and> max_risk_amount self = capital * 0.02
         \<and> position_value r = current_price r * real_of_int (quantity r)
         \<and> position_value r \<le> max_position_amount self
         \<and> max_position_amount self = capital * 0.10"
proof -
  from assms(1) obtain data qty risk profit where
    sz: "calculate_position_size self (Close (last data))
       (Min (Low ` set data)) (Max (High ` set data)) = Inr (qty, risk, profit)"
    and qty: "0 < qty"
    and r: "r = make_result ticker (get_market_cap yf ticker) data qty risk profit"
    by (rule screen_stock_accepted)
  let ?e = "Close (last data)" and ?s = "Min (Low ` set data)"
  from assms(3,4) have e: "0 < ?e" and d: "0 < ?e - ?s"
    unfolding r by (simp_all add: make_result_def)
  note facts = calculate_position_size_positive [OF sz qty]
  have "real_of_int qty * (?e - ?s) \<le> max_risk_amount self"
    using facts(3) d by (simp only: pos_le_divide_eq)
  then have risk: "risk \<le> max_risk_amount self" by (simp only: facts(5))
  have "real_of_int qty * ?e \<le> max_position_amount self"
    using facts(4) e by (simp only: pos_le_divide_eq)
  then have pos: "?e * real_of_int qty \<le> max_position_amount self"
    by (simp only: mult.commute)
  show ?thesis
    using risk pos unfolding r assms(2) by (simp add: make_result_def init_strategy_def)
qed

theorem screening_result_capital_limits_witness:
  "screen_stock demo_strategy demo_yf ''DEMO.NS'' = Inr (Some demo_result)
   \<and> 0 < entry_price demo_result
   \<and> 0 < entry_price demo_result - stop_loss demo_result
   \<and> risk_amount demo_result = 99
   \<and> max_risk_amount demo_strategy = 200
   \<and> risk_amount demo_result \<le> max_risk_amount demo_strategy
   \<and> position_value demo_result = 999
   \<and> max_position_amount demo_strategy = 1000
   \<and> position_value demo_result \<le> max_position_amount demo_strategy"
proof -
  have e: "0 < entry_price demo_result"
    and d: "0 < entry_price demo_result - stop_loss demo_result"
    by (simp_all add: demo_result_def)
  note limits = screening_result_capital_limits [OF demo_accepted demo_strategy_def e d]
  from limits have "max_risk_amount demo_strategy = 200"
    and "max_position_amount demo_strategy = 1000" by simp_all
  with limits e d show ?thesis
    using demo_accepted by (simp add: demo_result_def)
qed

section \<open>The universe of symbols: results\<close>

text \<open>
  C8. For every index identifier other than the five supported ones the static lookup
  does not fail: it returns the list kept for \<^verbatim>\<open>^NSEI\<close>, the NIFTY 50 list, and so does
  \<^verbatim>\<open>_get_nifty_symbols\<close> whenever the live lookup yields no constituents.
\<close>

theorem unknown_index_falls_back:
  assumes "index \<notin> {''^NSEI'', ''^CRSLDX'', ''^BSESN'', ''^CNX100'', ''NIFTY_MIDCAP''}"
  shows "get_fallback_stocks index = fallback_NSEI
         \<and> get_fallback_stocks ''^NSEI'' = fallback_NSEI
         \<and> (constituents yf index = None \<or> constituents yf index = Some []
              \<longrightarrow> get_nifty_symbols yf index = fallback_NSEI)"
proof -
  have unknown: "get_fallback_stocks index = fallback_NSEI"
    using assms by (simp add: get_fallback_stocks_def dict_get_def fallback_lists_def)
  have known: "get_fallback_stocks ''^NSEI'' = fallback_NSEI"
    by (simp add: get_fallback_stocks_def dict_get_def fallback_lists_def)
  have "get_nifty_symbols yf index = get_fallback_stocks index"
    if "constituents yf index = None \<or> constituents yf index = Some []"
    using that by (auto simp: get_nifty_symbols_def)
  with unknown known show ?thesis by simp
qed

theorem unknown_index_falls_back_witness:
  "constituents demo_yf ''^GSPC'' = None
   \<and> get_fallback_stocks ''^GSPC'' = fallback_NSEI
   \<and> get_nifty_symbols demo_yf ''^GSPC'' = fallback_NSEI
   \<and> length (get_nifty_symbols demo_yf ''^GSPC'') = 50
   \<and> hd (get_nifty_symbols demo_yf ''^GSPC'') = ''RELIANCE.NS''
   \<and> get_fallback_stocks ''^BSESN'' = fallback_BSESN
   \<and> fallback_BSESN \<noteq> fallback_NSEI"
proof -
  have none: "constituents demo_yf ''^GSPC'' = None" by (simp add: demo_yf_def)
  have "''^GSPC'' \<notin> {''^NSEI'', ''^CRSLDX'', ''^BSESN'', ''^CNX100'', ''NIFTY_MIDCAP''}"
    by simp
  note fallback = unknown_index_falls_back [OF this, of demo_yf]
  from fallback none have nifty: "get_nifty_symbols demo_yf ''^GSPC'' = fallback_NSEI"
    by simp
  have "length fallback_NSEI = 50" and "hd fallback_NSEI = ''RELIANCE.NS''"
    and "fallback_BSESN \<noteq> fallback_NSEI"
    by (simp_all add: fallback_NSEI_def fallback_BSESN_def)
  moreover have "get_fallback_stocks ''^BSESN'' = fallback_BSESN"
    by (simp add: get_fallback_stocks_def dict_get_def fallback_lists_def)
  ultimately show ?thesis
    using fallback none nifty by simp
qed

end
